theory Spec2Isabelle
  imports Main "HOL-Library.Word"
begin

section \<open>Data model\<close>

text \<open>
  The module \<open>utils.py\<close> reads and writes files of an S3 bucket. Everything it does goes
  through three collaborators that are not part of the repository: the object store
  (boto3, s3fs), the serializer (pickle) and the dataframe libraries (pandas, fastparquet).
  The store is modelled as a map from (bucket, key) to bytes together with the list of
  the requests sent to it; the serializer and the dataframe parsers are parameters of the
  functions that call them.
\<close>

type_synonym bytes = "8 word list"

text \<open>Exceptions of the Python code, as values.\<close>

datatype error =
    AssertionError
  | ValueError string
  | PicklingError
  | UnpicklingError
  | ClientError string
  | EndpointConnectionError

text \<open>A request sent to the store: \<open>put\<close> of a body, or \<open>get\<close>, at a bucket and a key.\<close>

datatype request =
    PutObject string string bytes
  | GetObject string string

text \<open>
  The world outside the process: the content of the store, every request sent so far
  (oldest first) and what was printed.
\<close>

record world =
  objects :: "string \<times> string \<rightharpoonup> bytes"
  requests :: "request list"
  stdout :: "string list"

text \<open>
  The store may refuse a request (access denied, no such bucket, network failure). Which
  requests it refuses is not decided by the program: \<open>fault n r\<close> is the error, if any,
  with which the request \<open>r\<close> fails when \<open>n\<close> requests have been sent before it.
\<close>

type_synonym faults = "nat \<Rightarrow> request \<Rightarrow> error option"

text \<open>The serializer: \<open>pickle.dump\<close> into a buffer and \<open>pickle.loads\<close>, both of which may raise.\<close>

record 'obj pickle =
  dumps :: "'obj \<Rightarrow> error + bytes"
  loads :: "bytes \<Rightarrow> error + 'obj"

text \<open>
  A boto3 resource object \<open>s3_resource.Object(bucket, key)\<close>. Resource objects are lazy:
  building one only records its identifiers, and a request is sent by an action
  (\<open>put\<close>, \<open>get\<close>) called on it.
\<close>

record s3_object =
  bucket_name :: string
  key :: string

definition s3_Object :: "string \<Rightarrow> string \<Rightarrow> s3_object" where
  "s3_Object b k = \<lparr>bucket_name = b, key = k\<rparr>"

definition Object_put :: "faults \<Rightarrow> s3_object \<Rightarrow> bytes \<Rightarrow> world \<Rightarrow> (error + unit) \<times> world" where
  "Object_put fault ob body w =
     (let r = PutObject (bucket_name ob) (key ob) body;
          w' = w\<lparr>requests := requests w @ [r]\<rparr>
      in case fault (length (requests w)) r of
           Some e \<Rightarrow> (Inl e, w')
         | None \<Rightarrow> (Inr (), w'\<lparr>objects := (objects w)((bucket_name ob, key ob) \<mapsto> body)\<rparr>))"

definition Object_get :: "faults \<Rightarrow> s3_object \<Rightarrow> world \<Rightarrow> (error + bytes) \<times> world" where
  "Object_get fault ob w =
     (let r = GetObject (bucket_name ob) (key ob);
          w' = w\<lparr>requests := requests w @ [r]\<rparr>
      in case fault (length (requests w)) r of
           Some e \<Rightarrow> (Inl e, w')
         | None \<Rightarrow>
             (case objects w (bucket_name ob, key ob) of
                None \<Rightarrow> (Inl (ClientError ''NoSuchKey''), w')
              | Some body \<Rightarrow> (Inr body, w')))"

section \<open>The class \<open>PickleS3\<close>\<close>

text \<open>
  An instance has one attribute, \<open>self.bucket\<close>. A method takes the instance and the
  world and returns its result (or the exception raised) with the instance and the world
  as it leaves them.
\<close>

record PickleS3 =
  bucket :: string

text \<open>\<open>__init__(self, bucket=None)\<close>: \<open>assert bucket is not None\<close>, then the assignment.\<close>

fun PickleS3_init :: "string option \<Rightarrow> world \<Rightarrow> (error + PickleS3) \<times> world" where
  "PickleS3_init None w = (Inl AssertionError, w)"
| "PickleS3_init (Some b) w = (Inr \<lparr>bucket = b\<rparr>, w)"

text \<open>
  \<open>dump(self, model, path)\<close>: pickle the object into a buffer, then one \<open>put\<close> of the
  buffer's content at \<open>(self.bucket, path)\<close>. An exception of \<open>pk.dump\<close> leaves before the
  store is reached.
\<close>

definition PickleS3_dump ::
  "'obj pickle \<Rightarrow> faults \<Rightarrow> 'obj \<Rightarrow> string \<Rightarrow> PickleS3 \<times> world \<Rightarrow> (error + unit) \<times> PickleS3 \<times> world" where
  "PickleS3_dump pk fault model path st =
     (case st of (self, w) \<Rightarrow>
        (case dumps pk model of
           Inl e \<Rightarrow> (Inl e, self, w)
         | Inr io_buffer \<Rightarrow>
             (case Object_put fault (s3_Object (bucket self) path) io_buffer w of
                (r, w') \<Rightarrow> (r, self, w'))))"

text \<open>
  \<open>load(self, path)\<close>: the bare statement \<open>s3_resource.Object(self.bucket, path)\<close>, whose
  value is dropped, then \<open>get\<close> on a second such object, then \<open>pk.loads\<close> of the body.
\<close>

definition PickleS3_load ::
  "'obj pickle \<Rightarrow> faults \<Rightarrow> string \<Rightarrow> PickleS3 \<times> world \<Rightarrow> (error + 'obj) \<times> PickleS3 \<times> world" where
  "PickleS3_load pk fault path st =
     (case st of (self, w) \<Rightarrow>
        (let unused = s3_Object (bucket self) path
         in case Object_get fault (s3_Object (bucket self) path) w of
              (Inl e, w') \<Rightarrow> (Inl e, self, w')
            | (Inr body_string, w') \<Rightarrow> (loads pk body_string, self, w')))"

text \<open>
  The text of \<open>load\<close> without its bare first statement, to compare with \<open>load\<close> itself.
\<close>

definition PickleS3_load_without_bare_Object ::
  "'obj pickle \<Rightarrow> faults \<Rightarrow> string \<Rightarrow> PickleS3 \<times> world \<Rightarrow> (error + 'obj) \<times> PickleS3 \<times> world" where
  "PickleS3_load_without_bare_Object pk fault path st =
     (case st of (self, w) \<Rightarrow>
        (case Object_get fault (s3_Object (bucket self) path) w of
           (Inl e, w') \<Rightarrow> (Inl e, self, w')
         | (Inr body_string, w') \<Rightarrow> (loads pk body_string, self, w')))"

text \<open>
  The life of an instance: a caller makes any number of \<open>dump\<close> and \<open>load\<close> calls on it,
  going on after a call that raised. \<open>PickleS3_call\<close> is one such call with its outcome
  (\<open>None\<close> for the \<open>None\<close> that \<open>dump\<close> returns), \<open>PickleS3_calls\<close> a sequence of them.
\<close>

datatype 'obj call = Dump 'obj string | Load string

fun PickleS3_call ::
  "'obj pickle \<Rightarrow> faults \<Rightarrow> 'obj call \<Rightarrow> PickleS3 \<times> world \<Rightarrow> (error + 'obj option) \<times> PickleS3 \<times> world" where
  "PickleS3_call pk fault (Dump model path) st =
     (case PickleS3_dump pk fault model path st of
        (Inl e, st') \<Rightarrow> (Inl e, st')
      | (Inr u, st') \<Rightarrow> (Inr None, st'))"
| "PickleS3_call pk fault (Load path) st =
     (case PickleS3_load pk fault path st of
        (Inl e, st') \<Rightarrow> (Inl e, st')
      | (Inr ob, st') \<Rightarrow> (Inr (Some ob), st'))"

fun PickleS3_calls ::
  "'obj pickle \<Rightarrow> faults \<Rightarrow> 'obj call list \<Rightarrow> PickleS3 \<times> world \<Rightarrow> PickleS3 \<times> world" where
  "PickleS3_calls pk fault [] st = st"
| "PickleS3_calls pk fault (c # cs) st = PickleS3_calls pk fault cs (snd (PickleS3_call pk fault c st))"

section \<open>Strings and paths\<close>

text \<open>\<open>str.startswith\<close>, \<open>str.endswith\<close>, \<open>str()\<close> of a string or \<open>None\<close>, and \<open>os.path.join\<close> of two parts.\<close>

definition startswith :: "string \<Rightarrow> string \<Rightarrow> bool" where
  "startswith s p = (take (length p) s = p)"

definition endswith :: "string \<Rightarrow> string \<Rightarrow> bool" where
  "endswith s p = (length p \<le> length s \<and> drop (length s - length p) s = p)"

fun py_str :: "string option \<Rightarrow> string" where
  "py_str None = ''None''"
| "py_str (Some s) = s"

definition os_path_join :: "string \<Rightarrow> string \<Rightarrow> string" where
  "os_path_join a b =
     (if startswith b ''/'' then b
      else if a = [] \<or> endswith a ''/'' then a @ b
      else a @ ''/'' @ b)"

section \<open>\<open>read_csv_s3\<close>\<close>

text \<open>
  \<open>boto3.client('s3').get_object(Bucket=..., Key=...)\<close> followed by \<open>obj['Body'].read()\<close>: the
  same request as \<open>get\<close> on a resource object.
\<close>

definition get_object :: "faults \<Rightarrow> string \<Rightarrow> string \<Rightarrow> world \<Rightarrow> (error + bytes) \<times> world" where
  "get_object fault Bucket Key w = Object_get fault (s3_Object Bucket Key) w"

text \<open>\<open>print(a, b)\<close> writes both, a space between them and a newline after them.\<close>

definition print2 :: "string \<Rightarrow> string \<Rightarrow> world \<Rightarrow> world" where
  "print2 a b w = w\<lparr>stdout := stdout w @ [a @ '' '' @ b @ [CHR 0x0A]]\<rparr>"

text \<open>
  \<open>read_csv_s3(s3_bucket, path, sep, compression, **kwargs)\<close>. The parser
  \<open>pd_read_csv buffer sep compression kwargs\<close> stands for \<open>pd.read_csv\<close>, its third argument
  being the \<open>compression\<close> keyword when the call passes one. The result is \<open>Some\<close> dataframe,
  or \<open>None\<close> when the function ends without a \<open>return\<close>.
\<close>

definition read_csv_s3 ::
  "faults \<Rightarrow> (bytes \<Rightarrow> string \<Rightarrow> string option \<Rightarrow> 'kw \<Rightarrow> error + 'df) \<Rightarrow>
   string \<Rightarrow> string \<Rightarrow> string \<Rightarrow> string option \<Rightarrow> 'kw \<Rightarrow> world \<Rightarrow> (error + 'df option) \<times> world" where
  "read_csv_s3 fault pd_read_csv s3_bucket path sep compression kwargs w =
     (if CHR ''/'' \<in> set s3_bucket then (Inl AssertionError, w)
      else if startswith path ''/'' then (Inl AssertionError, w)
      else if compression = Some ''gzip'' then
        (if \<not> endswith path ''.csv.gz'' then (Inl AssertionError, w)
         else case get_object fault s3_bucket path w of
                (Inl e, w') \<Rightarrow> (Inl e, w')
              | (Inr body, w') \<Rightarrow>
                  (case pd_read_csv body sep (Some ''gzip'') kwargs of
                     Inl e \<Rightarrow> (Inl e, w')
                   | Inr df \<Rightarrow> (Inr (Some df), w')))
      else if compression = None then
        (if \<not> endswith path ''.csv'' then (Inl AssertionError, w)
         else case get_object fault s3_bucket path w of
                (Inl e, w') \<Rightarrow> (Inl e, w')
              | (Inr body, w') \<Rightarrow>
                  (case pd_read_csv body sep None kwargs of
                     Inl e \<Rightarrow> (Inl e, w')
                   | Inr df \<Rightarrow> (Inr (Some df), w')))
      else
        (Inr None,
         print2 (''Error in read_csv_s3: compression not recognized/implemented.'' @ [CHR 0x0A]
                   @ ''CSV ompression: '') (py_str compression) w))"

section \<open>\<open>read_parquet_s3\<close>\<close>

text \<open>
  A parquet file is its columns in order, each a name and a content; \<open>pf.dtypes\<close> is
  keyed by the column names. A dataframe is a list of named columns too.
  \<open>pf.to_pandas(columns)\<close> loads the columns asked for, in the order asked, and fails on a
  name the file does not have.
\<close>

type_synonym 'c parquet_file = "(string \<times> 'c) list"

definition dtypes :: "'c parquet_file \<Rightarrow> string list" where
  "dtypes pf = map fst pf"

fun to_pandas :: "'c parquet_file \<Rightarrow> string list \<Rightarrow> error + (string \<times> 'c) list" where
  "to_pandas pf [] = Inr []"
| "to_pandas pf (c # cs) =
     (case map_of pf c of
        None \<Rightarrow> Inl (ValueError c)
      | Some v \<Rightarrow> (case to_pandas pf cs of Inl e \<Rightarrow> Inl e | Inr df \<Rightarrow> Inr ((c, v) # df)))"

text \<open>
  \<open>read_parquet_s3(s3_bucket, path, columns, skip_missing_colums)\<close>. Opening the file,
  \<open>fastparquet.ParquetFile(path, open_with=s3.open)\<close>, is the parameter \<open>ParquetFile\<close>; it
  may fail. The message of the \<open>ValueError\<close> is a plain string in the source, braces
  included.
\<close>

definition read_parquet_s3 ::
  "(string \<Rightarrow> error + 'c parquet_file) \<Rightarrow> string \<Rightarrow> string \<Rightarrow> string list option \<Rightarrow> bool \<Rightarrow>
   error + (string \<times> 'c) list" where
  "read_parquet_s3 ParquetFile s3_bucket path columns skip_missing_colums =
     (if CHR ''/'' \<in> set s3_bucket then Inl AssertionError
      else if startswith path ''/'' then Inl AssertionError
      else if \<not> endswith path ''.parquet'' then Inl AssertionError
      else case ParquetFile (os_path_join s3_bucket path) of
             Inl e \<Rightarrow> Inl e
           | Inr pf \<Rightarrow>
               (case columns of
                  Some cols \<Rightarrow>
                    (let missing_columns = filter (\<lambda>col. col \<notin> set (dtypes pf)) cols
                     in if missing_columns \<noteq> [] \<and> \<not> skip_missing_colums
                        then Inl (ValueError ''Missing columns in {path}: {missing_columns}'')
                        else to_pandas pf (filter (\<lambda>c. c \<notin> set missing_columns) cols))
                | None \<Rightarrow>
                    to_pandas pf (filter (\<lambda>c. c \<noteq> ''autoFilledFields'') (dtypes pf))))"

section \<open>Concrete collaborators for the examples\<close>

text \<open>
  A store that serves every request and one that denies every request; a world with an
  empty store; and pickle protocol 2 on three objects, the third of which (a lambda) it
  cannot pickle.
\<close>

definition no_faults :: faults where
  "no_faults = (\<lambda>n r. None)"

definition deny_all :: faults where
  "deny_all = (\<lambda>n r. Some (ClientError ''AccessDenied''))"

definition empty_world :: world where
  "empty_world = \<lparr>objects = Map.empty, requests = [], stdout = []\<rparr>"

datatype pyobj = PyNone | PyBool bool | PyLambda

fun pickle2_dumps :: "pyobj \<Rightarrow> error + bytes" where
  "pickle2_dumps PyNone = Inr [0x80, 0x02, 0x4E, 0x2E]"
| "pickle2_dumps (PyBool True) = Inr [0x80, 0x02, 0x88, 0x2E]"
| "pickle2_dumps (PyBool False) = Inr [0x80, 0x02, 0x89, 0x2E]"
| "pickle2_dumps PyLambda = Inl PicklingError"

definition pickle2_loads :: "bytes \<Rightarrow> error + pyobj" where
  "pickle2_loads b =
     (if b = [0x80, 0x02, 0x4E, 0x2E] then Inr PyNone
      else if b = [0x80, 0x02, 0x88, 0x2E] then Inr (PyBool True)
      else if b = [0x80, 0x02, 0x89, 0x2E] then Inr (PyBool False)
      else Inl UnpicklingError)"

definition pickle2 :: "pyobj pickle" where
  "pickle2 = \<lparr>dumps = pickle2_dumps, loads = pickle2_loads\<rparr>"

text \<open>A parser for the examples: a dataframe is the bytes it was read from.\<close>

definition raw_csv :: "bytes \<Rightarrow> string \<Rightarrow> string option \<Rightarrow> unit \<Rightarrow> error + bytes" where
  "raw_csv body sep compression kwargs = Inr body"

text \<open>A parquet file of three columns for the examples, found at one path only.\<close>

definition three_columns :: "nat list parquet_file" where
  "three_columns = [(''id'', [1, 2]), (''autoFilledFields'', [0, 0]), (''price'', [7, 9])]"

definition one_parquet :: "string \<Rightarrow> error + nat list parquet_file" where
  "one_parquet p = (if p = ''data/t.parquet'' then Inr three_columns else Inl (ClientError ''NoSuchKey''))"

section \<open>Facts about the store and the two methods\<close>

lemma Object_put_requests:
  "requests (snd (Object_put fault (s3_Object b k) body w)) = requests w @ [PutObject b k body]"
  by (simp add: Object_put_def s3_Object_def Let_def split: option.splits)

lemma Object_get_world:
  "snd (Object_get fault (s3_Object b k) w) = w\<lparr>requests := requests w @ [GetObject b k]\<rparr>"
  by (simp add: Object_get_def s3_Object_def Let_def split: option.splits)

lemma Object_get_result:
  "fst (Object_get fault (s3_Object b k) w) =
     (case fault (length (requests w)) (GetObject b k) of
        Some e \<Rightarrow> Inl e
      | None \<Rightarrow> (case objects w (b, k) of None \<Rightarrow> Inl (ClientError ''NoSuchKey'') | Some body \<Rightarrow> Inr body))"
  by (simp add: Object_get_def s3_Object_def Let_def split: option.splits)

lemma PickleS3_dump_served:
  assumes "dumps pk ob = Inr body"
    and "fault (length (requests w)) (PutObject (bucket self) k body) = None"
  shows "PickleS3_dump pk fault ob k (self, w) =
           (Inr (), self,
            w\<lparr>requests := requests w @ [PutObject (bucket self) k body],
              objects := (objects w)((bucket self, k) \<mapsto> body)\<rparr>)"
  using assms by (simp add: PickleS3_dump_def Object_put_def s3_Object_def)

lemma PickleS3_dump_requests:
  "requests (snd (snd (PickleS3_dump pk fault model path (self, w)))) =
     (case dumps pk model of
        Inl e \<Rightarrow> requests w
      | Inr body \<Rightarrow> requests w @ [PutObject (bucket self) path body])"
proof (cases "dumps pk model")
  case (Inl e)
  then show ?thesis by (simp add: PickleS3_dump_def)
next
  case (Inr body)
  then show ?thesis
    using Object_put_requests [of fault "bucket self" path body w]
    by (cases "Object_put fault (s3_Object (bucket self) path) body w") (simp add: PickleS3_dump_def)
qed

lemma PickleS3_dump_elsewhere:
  "(b, k) \<noteq> (bucket self, path) \<Longrightarrow>
   objects (snd (snd (PickleS3_dump pk fault model path (self, w)))) (b, k) = objects w (b, k)"
  by (auto simp: PickleS3_dump_def Object_put_def s3_Object_def Let_def split: sum.splits option.splits)

lemma PickleS3_dump_self: "fst (snd (PickleS3_dump pk fault model path (self, w))) = self"
  by (simp add: PickleS3_dump_def split: sum.splits prod.splits)

lemma PickleS3_load_eq:
  "PickleS3_load pk fault k (self, w) =
     ((case fst (Object_get fault (s3_Object (bucket self) k) w) of
         Inl e \<Rightarrow> Inl e | Inr body \<Rightarrow> loads pk body),
      self, w\<lparr>requests := requests w @ [GetObject (bucket self) k]\<rparr>)"
  using Object_get_world [of fault "bucket self" k w]
  by (cases "Object_get fault (s3_Object (bucket self) k) w")
     (auto simp: PickleS3_load_def split: sum.splits)

lemma PickleS3_load_self: "fst (snd (PickleS3_load pk fault path (self, w))) = self"
  by (simp add: PickleS3_load_eq)

lemma PickleS3_load_stored:
  assumes "objects w (bucket self, k) = Some body"
    and "fault (length (requests w)) (GetObject (bucket self) k) = None"
  shows "fst (PickleS3_load pk fault k (self, w)) = loads pk body"
  using assms by (simp add: PickleS3_load_eq Object_get_result)

lemma PickleS3_call_self: "fst (snd (PickleS3_call pk fault c (self, w))) = self"
proof (cases c)
  case (Dump model path)
  then show ?thesis
    using PickleS3_dump_self [of pk fault model path self w]
    by (auto split: prod.splits sum.splits)
next
  case (Load path)
  then show ?thesis
    using PickleS3_load_self [of pk fault path self w]
    by (auto split: prod.splits sum.splits)
qed

lemma PickleS3_calls_self: "fst (PickleS3_calls pk fault cs (self, w)) = self"
proof (induction cs arbitrary: w)
  case Nil
  then show ?case by simp
next
  case (Cons c cs)
  obtain r self' w' where c: "PickleS3_call pk fault c (self, w) = (r, self', w')"
    by (metis prod_cases3)
  with PickleS3_call_self [of pk fault c self w] have "self' = self" by simp
  with c Cons.IH [of w'] show ?case by simp
qed

lemma PickleS3_call_absent:
  assumes "objects w (b, k) = None" and "\<And>model. c \<noteq> Dump model k"
  shows "objects (snd (snd (PickleS3_call pk fault c (self, w)))) (b, k) = None"
proof (cases c)
  case (Dump model path)
  with assms(2) have "path \<noteq> k" by blast
  then have "objects (snd (snd (PickleS3_dump pk fault model path (self, w)))) (b, k) = objects w (b, k)"
    by (simp add: PickleS3_dump_elsewhere)
  with Dump assms(1) show ?thesis
    by (auto split: prod.splits sum.splits)
next
  case (Load path)
  have "objects (snd (snd (PickleS3_load pk fault path (self, w)))) = objects w"
    by (simp add: PickleS3_load_eq)
  with Load assms(1) show ?thesis
    by (auto split: prod.splits sum.splits)
qed

lemma PickleS3_calls_absent:
  assumes "objects w (b, k) = None" and "\<And>model. Dump model k \<notin> set cs"
  shows "objects (snd (PickleS3_calls pk fault cs (self, w))) (b, k) = None"
  using assms
proof (induction cs arbitrary: w)
  case Nil
  then show ?case by simp
next
  case (Cons c cs)
  obtain r self' w' where c: "PickleS3_call pk fault c (self, w) = (r, self', w')"
    by (metis prod_cases3)
  have s: "self' = self"
    using PickleS3_call_self [of pk fault c self w] c by simp
  have "objects w' (b, k) = None"
    using PickleS3_call_absent [of w b k c pk fault self] Cons.prems c by auto
  moreover have "\<And>model. Dump model k \<notin> set cs"
    using Cons.prems(2) by auto
  ultimately have "objects (snd (PickleS3_calls pk fault cs (self, w'))) (b, k) = None"
    by (rule Cons.IH)
  with c s show ?case by simp
qed

section \<open>Round trip and overwrite\<close>

text \<open>
  C1. Round trip: when the serializer's \<open>loads\<close> inverts its \<open>dumps\<close> on the object and
  the store serves the two requests (it is a plain map from (bucket, key) to bytes),
  \<open>dump(o, k)\<close> returns and \<open>load(k)\<close> on the same wrapper then returns \<open>o\<close>.
\<close>

theorem dump_then_load_roundtrip:
  assumes "dumps pk ob = Inr body" and "loads pk body = Inr ob"
    and "fault (length (requests w)) (PutObject (bucket self) k body) = None"
    and "fault (Suc (length (requests w))) (GetObject (bucket self) k) = None"
  shows "\<exists>w1. PickleS3_dump pk fault ob k (self, w) = (Inr (), self, w1)
             \<and> fst (PickleS3_load pk fault k (self, w1)) = Inr ob"
proof -
  let ?w1 = "w\<lparr>requests := requests w @ [PutObject (bucket self) k body],
               objects := (objects w)((bucket self, k) \<mapsto> body)\<rparr>"
  have "PickleS3_dump pk fault ob k (self, w) = (Inr (), self, ?w1)"
    using assms(1,3) by (rule PickleS3_dump_served)
  moreover have "fst (PickleS3_load pk fault k (self, ?w1)) = loads pk body"
    using assms(4) by (intro PickleS3_load_stored) simp_all
  ultimately show ?thesis
    using assms(2) by simp
qed

theorem dump_then_load_roundtrip_witness:
  "PickleS3_dump pickle2 no_faults (PyBool True) ''model.pkl'' (\<lparr>bucket = ''b''\<rparr>, empty_world)
     = (Inr (), \<lparr>bucket = ''b''\<rparr>,
        \<lparr>objects = [(''b'', ''model.pkl'') \<mapsto> [0x80, 0x02, 0x88, 0x2E]],
         requests = [PutObject ''b'' ''model.pkl'' [0x80, 0x02, 0x88, 0x2E]], stdout = []\<rparr>)
   \<and> fst (PickleS3_load pickle2 no_faults ''model.pkl'' (\<lparr>bucket = ''b''\<rparr>,
        \<lparr>objects = [(''b'', ''model.pkl'') \<mapsto> [0x80, 0x02, 0x88, 0x2E]],
         requests = [PutObject ''b'' ''model.pkl'' [0x80, 0x02, 0x88, 0x2E]], stdout = []\<rparr>))
     = Inr (PyBool True)"
proof -
  have d: "dumps pickle2 (PyBool True) = Inr [0x80, 0x02, 0x88, 0x2E]"
    by (simp add: pickle2_def)
  have l: "loads pickle2 [0x80, 0x02, 0x88, 0x2E] = Inr (PyBool True)"
    by (simp add: pickle2_def pickle2_loads_def)
  have p: "no_faults (length (requests empty_world))
             (PutObject (bucket \<lparr>bucket = ''b''\<rparr>) ''model.pkl'' [0x80, 0x02, 0x88, 0x2E]) = None"
    by (simp add: no_faults_def)
  have g: "no_faults (Suc (length (requests empty_world)))
             (GetObject (bucket \<lparr>bucket = ''b''\<rparr>) ''model.pkl'') = None"
    by (simp add: no_faults_def)
  have e: "PickleS3_dump pickle2 no_faults (PyBool True) ''model.pkl'' (\<lparr>bucket = ''b''\<rparr>, empty_world)
     = (Inr (), \<lparr>bucket = ''b''\<rparr>,
        \<lparr>objects = [(''b'', ''model.pkl'') \<mapsto> [0x80, 0x02, 0x88, 0x2E]],
         requests = [PutObject ''b'' ''model.pkl'' [0x80, 0x02, 0x88, 0x2E]], stdout = []\<rparr>)"
    by (simp add: PickleS3_dump_def pickle2_def Object_put_def s3_Object_def no_faults_def empty_world_def)
  from dump_then_load_roundtrip [OF d l p g] e show ?thesis
    by simp
qed

text \<open>
  C3. Overwrite, last write wins: under the same conditions, after \<open>dump(o1, k)\<close> and then
  \<open>dump(o2, k)\<close> on one wrapper, \<open>load(k)\<close> returns \<open>o2\<close>, and so not \<open>o1\<close> when the two
  differ.
\<close>

theorem last_write_wins:
  assumes "dumps pk o1 = Inr body1" and "dumps pk o2 = Inr body2" and "loads pk body2 = Inr o2"
    and "fault (length (requests w)) (PutObject (bucket self) k body1) = None"
    and "fault (Suc (length (requests w))) (PutObject (bucket self) k body2) = None"
    and "fault (Suc (Suc (length (requests w)))) (GetObject (bucket self) k) = None"
  shows "\<exists>w1 w2. PickleS3_dump pk fault o1 k (self, w) = (Inr (), self, w1)
             \<and> PickleS3_dump pk fault o2 k (self, w1) = (Inr (), self, w2)
             \<and> fst (PickleS3_load pk fault k (self, w2)) = Inr o2
             \<and> (o1 \<noteq> o2 \<longrightarrow> fst (PickleS3_load pk fault k (self, w2)) \<noteq> Inr o1)"
proof -
  let ?w1 = "w\<lparr>requests := requests w @ [PutObject (bucket self) k body1],
               objects := (objects w)((bucket self, k) \<mapsto> body1)\<rparr>"
  let ?w2 = "?w1\<lparr>requests := requests ?w1 @ [PutObject (bucket self) k body2],
                 objects := (objects ?w1)((bucket self, k) \<mapsto> body2)\<rparr>"
  have 1: "PickleS3_dump pk fault o1 k (self, w) = (Inr (), self, ?w1)"
    using assms(1,4) by (rule PickleS3_dump_served)
  have 2: "PickleS3_dump pk fault o2 k (self, ?w1) = (Inr (), self, ?w2)"
    using assms(2,5) by (intro PickleS3_dump_served) simp_all
  have "fst (PickleS3_load pk fault k (self, ?w2)) = loads pk body2"
    using assms(6) by (intro PickleS3_load_stored) simp_all
  then have 3: "fst (PickleS3_load pk fault k (self, ?w2)) = Inr o2"
    using assms(3) by simp
  then have 4: "o1 \<noteq> o2 \<longrightarrow> fst (PickleS3_load pk fault k (self, ?w2)) \<noteq> Inr o1"
    by simp
  from 1 2 3 4 show ?thesis by blast
qed

theorem last_write_wins_witness:
  "fst (PickleS3_load pickle2 no_faults ''model.pkl''
         (PickleS3_calls pickle2 no_faults [Dump (PyBool True) ''model.pkl'', Dump PyNone ''model.pkl'']
            (\<lparr>bucket = ''b''\<rparr>, empty_world)))
     = Inr PyNone"
proof -
  have d1: "dumps pickle2 (PyBool True) = Inr [0x80, 0x02, 0x88, 0x2E]"
    by (simp add: pickle2_def)
  have d2: "dumps pickle2 PyNone = Inr [0x80, 0x02, 0x4E, 0x2E]"
    by (simp add: pickle2_def)
  have l: "loads pickle2 [0x80, 0x02, 0x4E, 0x2E] = Inr PyNone"
    by (simp add: pickle2_def pickle2_loads_def)
  have f: "no_faults (length (requests empty_world))
             (PutObject (bucket \<lparr>bucket = ''b''\<rparr>) ''model.pkl'' [0x80, 0x02, 0x88, 0x2E]) = None"
    "no_faults (Suc (length (requests empty_world)))
             (PutObject (bucket \<lparr>bucket = ''b''\<rparr>) ''model.pkl'' [0x80, 0x02, 0x4E, 0x2E]) = None"
    "no_faults (Suc (Suc (length (requests empty_world))))
             (GetObject (bucket \<lparr>bucket = ''b''\<rparr>) ''model.pkl'') = None"
    by (simp_all add: no_faults_def)
  from last_write_wins [OF d1 d2 l f] obtain w1 w2 where
    "PickleS3_dump pickle2 no_faults (PyBool True) ''model.pkl'' (\<lparr>bucket = ''b''\<rparr>, empty_world)
       = (Inr (), \<lparr>bucket = ''b''\<rparr>, w1)"
    "PickleS3_dump pickle2 no_faults PyNone ''model.pkl'' (\<lparr>bucket = ''b''\<rparr>, w1)
       = (Inr (), \<lparr>bucket = ''b''\<rparr>, w2)"
    "fst (PickleS3_load pickle2 no_faults ''model.pkl'' (\<lparr>bucket = ''b''\<rparr>, w2)) = Inr PyNone"
    by auto
  then show ?thesis
    by simp
qed

section \<open>Errors\<close>

text \<open>
  C4 (as amended). Missing key: when the key holds nothing in the bound bucket and no
  call made since was a \<open>dump\<close> to it, \<open>load\<close> of that key never returns a value. It sends
  one get to the store and raises the error with which that get fails: the store's
  not-found error when the store answers the request, and the error of the store's
  refusal (access denied, network failure) when it refuses it.
\<close>

theorem load_of_unwritten_key_fails:
  assumes "objects w (bucket self, k) = None"
    and "\<forall>model. Dump model k \<notin> set cs"
    and "PickleS3_calls pk fault cs (self, w) = (self', w')"
  shows "\<exists>e. Object_get fault (s3_Object (bucket self') k) w'
                = (Inl e, w'\<lparr>requests := requests w' @ [GetObject (bucket self') k]\<rparr>)
            \<and> PickleS3_load pk fault k (self', w')
                = (Inl e, self', w'\<lparr>requests := requests w' @ [GetObject (bucket self') k]\<rparr>)
            \<and> e = (case fault (length (requests w')) (GetObject (bucket self') k) of
                     None \<Rightarrow> ClientError ''NoSuchKey''
                   | Some refusal \<Rightarrow> refusal)"
proof -
  let ?e = "case fault (length (requests w')) (GetObject (bucket self') k) of
              None \<Rightarrow> ClientError ''NoSuchKey'' | Some refusal \<Rightarrow> refusal"
  let ?w = "w'\<lparr>requests := requests w' @ [GetObject (bucket self') k]\<rparr>"
  have s: "self' = self"
    using PickleS3_calls_self [of pk fault cs self w] assms(3) by simp
  have "objects w' (bucket self, k) = None"
    using PickleS3_calls_absent [of w "bucket self" k cs pk fault self] assms by simp
  then have "fst (Object_get fault (s3_Object (bucket self') k) w') = Inl ?e"
    using s by (simp add: Object_get_result split: option.splits)
  then have g: "Object_get fault (s3_Object (bucket self') k) w' = (Inl ?e, ?w)"
    using Object_get_world [of fault "bucket self'" k w'] by (simp add: prod_eq_iff)
  then have "PickleS3_load pk fault k (self', w') = (Inl ?e, self', ?w)"
    by (simp add: PickleS3_load_def)
  with g show ?thesis by blast
qed

theorem load_of_unwritten_key_fails_witness:
  "fst (PickleS3_load pickle2 no_faults ''model.pkl''
         (PickleS3_calls pickle2 no_faults [Dump (PyBool True) ''other.pkl'', Load ''other.pkl'']
            (\<lparr>bucket = ''b''\<rparr>, empty_world)))
     = Inl (ClientError ''NoSuchKey'')
   \<and> PickleS3_load pickle2 deny_all ''model.pkl'' (\<lparr>bucket = ''b''\<rparr>, empty_world)
     = (Inl (ClientError ''AccessDenied''), \<lparr>bucket = ''b''\<rparr>,
        empty_world\<lparr>requests := [GetObject ''b'' ''model.pkl'']\<rparr>)"
proof -
  let ?cs = "[Dump (PyBool True) ''other.pkl'', Load ''other.pkl'']"
  obtain self' w' where r: "PickleS3_calls pickle2 no_faults ?cs (\<lparr>bucket = ''b''\<rparr>, empty_world) = (self', w')"
    by (cases "PickleS3_calls pickle2 no_faults ?cs (\<lparr>bucket = ''b''\<rparr>, empty_world)")
  have a: "objects empty_world (bucket \<lparr>bucket = ''b''\<rparr>, ''model.pkl'') = None"
    by (simp add: empty_world_def)
  have n: "\<forall>model. Dump model ''model.pkl'' \<notin> set ?cs"
    by simp
  have 1: "fst (PickleS3_load pickle2 no_faults ''model.pkl''
                 (PickleS3_calls pickle2 no_faults ?cs (\<lparr>bucket = ''b''\<rparr>, empty_world)))
             = Inl (ClientError ''NoSuchKey'')"
    using load_of_unwritten_key_fails [OF a n r] r by (auto simp: no_faults_def)
  have n0: "\<forall>model. Dump model ''model.pkl'' \<notin> set ([] :: pyobj call list)"
    by simp
  have r0: "PickleS3_calls pickle2 deny_all [] (\<lparr>bucket = ''b''\<rparr>, empty_world)
              = (\<lparr>bucket = ''b''\<rparr>, empty_world)"
    by simp
  have 2: "PickleS3_load pickle2 deny_all ''model.pkl'' (\<lparr>bucket = ''b''\<rparr>, empty_world)
             = (Inl (ClientError ''AccessDenied''), \<lparr>bucket = ''b''\<rparr>,
                empty_world\<lparr>requests := [GetObject ''b'' ''model.pkl'']\<rparr>)"
    using load_of_unwritten_key_fails [OF a n0 r0] by (auto simp: deny_all_def empty_world_def)
  from 1 2 show ?thesis by (intro conjI)
qed

text \<open>
  C4 as the spec states it fails on a store that denies the read: the key was never
  written, and the error that \<open>load\<close> raises is the store's access-denied error, not a
  not-found error.
\<close>

theorem load_of_unwritten_key_denied_counterexample:
  "objects empty_world (''b'', ''model.pkl'') = None
   \<and> fst (PickleS3_load pickle2 deny_all ''model.pkl'' (\<lparr>bucket = ''b''\<rparr>, empty_world))
       = Inl (ClientError ''AccessDenied'')
   \<and> fst (PickleS3_load pickle2 deny_all ''model.pkl'' (\<lparr>bucket = ''b''\<rparr>, empty_world))
       \<noteq> Inl (ClientError ''NoSuchKey'')"
  by (simp add: PickleS3_load_def Object_get_def s3_Object_def deny_all_def empty_world_def)

text \<open>
  C5. Errors propagate as they are: an error of the serializer or of the store, in
  \<open>dump\<close> or in \<open>load\<close>, is the error the method raises, with the world as the failed
  collaborator left it. Nothing is tried again: \<open>dump\<close> sends at most one request and
  \<open>load\<close> exactly one, whatever fails.
\<close>

theorem errors_propagate_unchanged:
  "(dumps pk model = Inl e \<longrightarrow>
      PickleS3_dump pk fault model path (self, w) = (Inl e, self, w))
   \<and> (dumps pk model = Inr body \<and> Object_put fault (s3_Object (bucket self) path) body w = (Inl e, w') \<longrightarrow>
      PickleS3_dump pk fault model path (self, w) = (Inl e, self, w'))
   \<and> (Object_get fault (s3_Object (bucket self) path) w = (Inl e, w') \<longrightarrow>
      PickleS3_load pk fault path (self, w) = (Inl e, self, w'))
   \<and> (Object_get fault (s3_Object (bucket self) path) w = (Inr body, w') \<and> loads pk body = Inl e \<longrightarrow>
      PickleS3_load pk fault path (self, w) = (Inl e, self, w'))
   \<and> length (requests (snd (snd (PickleS3_dump pk fault model path (self, w))))) \<le> length (requests w) + 1
   \<and> length (requests (snd (snd (PickleS3_load pk fault path (self, w))))) = length (requests w) + 1"
proof -
  have "length (requests (snd (snd (PickleS3_dump pk fault model path (self, w))))) \<le> length (requests w) + 1"
    by (simp add: PickleS3_dump_requests split: sum.splits)
  moreover have "length (requests (snd (snd (PickleS3_load pk fault path (self, w))))) = length (requests w) + 1"
    by (simp add: PickleS3_load_eq)
  ultimately show ?thesis
    by (simp add: PickleS3_dump_def PickleS3_load_def)
qed

theorem errors_propagate_unchanged_witness:
  "PickleS3_dump pickle2 no_faults PyLambda ''model.pkl'' (\<lparr>bucket = ''b''\<rparr>, empty_world)
     = (Inl PicklingError, \<lparr>bucket = ''b''\<rparr>, empty_world)
   \<and> PickleS3_dump pickle2 deny_all PyNone ''model.pkl'' (\<lparr>bucket = ''b''\<rparr>, empty_world)
     = (Inl (ClientError ''AccessDenied''), \<lparr>bucket = ''b''\<rparr>,
        empty_world\<lparr>requests := [PutObject ''b'' ''model.pkl'' [0x80, 0x02, 0x4E, 0x2E]]\<rparr>)
   \<and> PickleS3_load pickle2 deny_all ''model.pkl'' (\<lparr>bucket = ''b''\<rparr>, empty_world)
     = (Inl (ClientError ''AccessDenied''), \<lparr>bucket = ''b''\<rparr>,
        empty_world\<lparr>requests := [GetObject ''b'' ''model.pkl'']\<rparr>)
   \<and> PickleS3_load pickle2 no_faults ''model.pkl''
        (\<lparr>bucket = ''b''\<rparr>, empty_world\<lparr>objects := [(''b'', ''model.pkl'') \<mapsto> [0x00]]\<rparr>)
     = (Inl UnpicklingError, \<lparr>bucket = ''b''\<rparr>,
        empty_world\<lparr>objects := [(''b'', ''model.pkl'') \<mapsto> [0x00]],
                    requests := [GetObject ''b'' ''model.pkl'']\<rparr>)"
proof -
  let ?self = "\<lparr>bucket = ''b''\<rparr>"
  let ?corrupt = "empty_world\<lparr>objects := [(''b'', ''model.pkl'') \<mapsto> [0x00 :: 8 word]]\<rparr>"
  have 1: "dumps pickle2 PyLambda = Inl PicklingError"
    by (simp add: pickle2_def)
  have 2: "dumps pickle2 PyNone = Inr [0x80, 0x02, 0x4E, 0x2E]
           \<and> Object_put deny_all (s3_Object (bucket ?self) ''model.pkl'') [0x80, 0x02, 0x4E, 0x2E] empty_world
             = (Inl (ClientError ''AccessDenied''),
                empty_world\<lparr>requests := [PutObject ''b'' ''model.pkl'' [0x80, 0x02, 0x4E, 0x2E]]\<rparr>)"
    by (simp add: pickle2_def Object_put_def s3_Object_def deny_all_def empty_world_def)
  have 3: "Object_get deny_all (s3_Object (bucket ?self) ''model.pkl'') empty_world
             = (Inl (ClientError ''AccessDenied''), empty_world\<lparr>requests := [GetObject ''b'' ''model.pkl'']\<rparr>)"
    by (simp add: Object_get_def s3_Object_def deny_all_def empty_world_def)
  have 4: "Object_get no_faults (s3_Object (bucket ?self) ''model.pkl'') ?corrupt
             = (Inr [0x00], ?corrupt\<lparr>requests := [GetObject ''b'' ''model.pkl'']\<rparr>)
           \<and> loads pickle2 [0x00] = Inl UnpicklingError"
    by (simp add: Object_get_def s3_Object_def no_faults_def empty_world_def pickle2_def pickle2_loads_def)
  have a: "PickleS3_dump pickle2 no_faults PyLambda ''model.pkl'' (?self, empty_world)
             = (Inl PicklingError, ?self, empty_world)"
    using 1 errors_propagate_unchanged
      [where pk = pickle2 and model = PyLambda and e = PicklingError and fault = no_faults
         and path = "''model.pkl''" and self = ?self and w = empty_world]
    by blast
  have b: "PickleS3_dump pickle2 deny_all PyNone ''model.pkl'' (?self, empty_world)
             = (Inl (ClientError ''AccessDenied''), ?self,
                empty_world\<lparr>requests := [PutObject ''b'' ''model.pkl'' [0x80, 0x02, 0x4E, 0x2E]]\<rparr>)"
    using 2 errors_propagate_unchanged
      [where pk = pickle2 and model = PyNone and e = "ClientError ''AccessDenied''" and fault = deny_all
         and path = "''model.pkl''" and self = ?self and w = empty_world
         and body = "[0x80, 0x02, 0x4E, 0x2E]"
         and w' = "empty_world\<lparr>requests := [PutObject ''b'' ''model.pkl'' [0x80, 0x02, 0x4E, 0x2E]]\<rparr>"]
    by blast
  have c: "PickleS3_load pickle2 deny_all ''model.pkl'' (?self, empty_world)
             = (Inl (ClientError ''AccessDenied''), ?self, empty_world\<lparr>requests := [GetObject ''b'' ''model.pkl'']\<rparr>)"
    using 3 errors_propagate_unchanged
      [where pk = pickle2 and e = "ClientError ''AccessDenied''" and fault = deny_all
         and path = "''model.pkl''" and self = ?self and w = empty_world
         and w' = "empty_world\<lparr>requests := [GetObject ''b'' ''model.pkl'']\<rparr>"]
    by blast
  have d: "PickleS3_load pickle2 no_faults ''model.pkl'' (?self, ?corrupt)
             = (Inl UnpicklingError, ?self, ?corrupt\<lparr>requests := [GetObject ''b'' ''model.pkl'']\<rparr>)"
    using 4 errors_propagate_unchanged
      [where pk = pickle2 and e = UnpicklingError and fault = no_faults
         and path = "''model.pkl''" and self = ?self and w = ?corrupt and body = "[0x00]"
         and w' = "?corrupt\<lparr>requests := [GetObject ''b'' ''model.pkl'']\<rparr>"]
    by blast
  from a b c d show ?thesis by (intro conjI)
qed

section \<open>Frame and instance state\<close>

text \<open>
  C6 (as amended). Frame of \<open>dump\<close>: whatever the object and the key, the content at every
  other (bucket, key) pair is unchanged by \<open>dump(o, k)\<close>. When the object is serializable
  the call sends exactly one request, the put at \<open>(bucket, k)\<close>; when the serializer
  rejects the object the call raises that error, sends no request and leaves the store
  as it was.
\<close>

theorem dump_frame:
  assumes "PickleS3_dump pk fault model path (self, w) = (r, self', w')"
  shows "(\<forall>b k. (b, k) \<noteq> (bucket self, path) \<longrightarrow> objects w' (b, k) = objects w (b, k))
       \<and> (case dumps pk model of
            Inl e \<Rightarrow> r = Inl e \<and> requests w' = requests w \<and> objects w' = objects w
          | Inr body \<Rightarrow> requests w' = requests w @ [PutObject (bucket self) path body])"
proof -
  have "\<And>b k. (b, k) \<noteq> (bucket self, path) \<Longrightarrow> objects w' (b, k) = objects w (b, k)"
    using PickleS3_dump_elsewhere [of _ _ self path pk fault model w] assms by simp
  moreover have "requests w' =
      (case dumps pk model of Inl e \<Rightarrow> requests w | Inr body \<Rightarrow> requests w @ [PutObject (bucket self) path body])"
    using PickleS3_dump_requests [of pk fault model path self w] assms by simp
  moreover have "\<And>e. dumps pk model = Inl e \<Longrightarrow> r = Inl e \<and> w' = w"
    using assms by (simp add: PickleS3_dump_def)
  ultimately show ?thesis
    by (auto split: sum.splits)
qed

theorem dump_frame_witness:
  "objects (snd (snd (PickleS3_dump pickle2 no_faults PyNone ''model.pkl''
       (\<lparr>bucket = ''b''\<rparr>, empty_world\<lparr>objects := [(''b'', ''old.pkl'') \<mapsto> [0x00]]\<rparr>))))
     (''b'', ''old.pkl'') = Some [0x00]
   \<and> requests (snd (snd (PickleS3_dump pickle2 no_faults PyNone ''model.pkl''
       (\<lparr>bucket = ''b''\<rparr>, empty_world\<lparr>objects := [(''b'', ''old.pkl'') \<mapsto> [0x00]]\<rparr>))))
     = [PutObject ''b'' ''model.pkl'' [0x80, 0x02, 0x4E, 0x2E]]"
proof -
  let ?w = "empty_world\<lparr>objects := [(''b'', ''old.pkl'') \<mapsto> [0x00 :: 8 word]]\<rparr>"
  obtain r self' w' where
    d: "PickleS3_dump pickle2 no_faults PyNone ''model.pkl'' (\<lparr>bucket = ''b''\<rparr>, ?w) = (r, self', w')"
    by (metis prod_cases3)
  from dump_frame [OF d] have
    "objects w' (''b'', ''old.pkl'') = objects ?w (''b'', ''old.pkl'')"
    "requests w' = requests ?w @ [PutObject ''b'' ''model.pkl'' [0x80, 0x02, 0x4E, 0x2E]]"
    by (simp_all add: pickle2_def)
  with d show ?thesis
    by (simp add: empty_world_def)
qed

text \<open>
  C6 as the spec states it fails on an object that cannot be pickled: \<open>dump\<close> then sends
  no put at all.
\<close>

theorem dump_of_unpicklable_sends_nothing_counterexample:
  "requests (snd (snd (PickleS3_dump pickle2 no_faults PyLambda ''model.pkl''
       (\<lparr>bucket = ''b''\<rparr>, empty_world)))) = []"
  by (simp add: PickleS3_dump_def pickle2_def empty_world_def)

text \<open>
  C7. Instance state: \<open>dump\<close> and \<open>load\<close> return the instance as they got it, so after any
  sequence of calls the bucket is the one bound at construction; and since the bucket is
  all an instance holds, a call made after that sequence does what the same call does on
  a fresh instance of that bucket in the same world.
\<close>

theorem wrapper_state_fixed:
  "fst (snd (PickleS3_dump pk fault model path (self, w))) = self
   \<and> fst (snd (PickleS3_load pk fault path (self, w))) = self
   \<and> fst (PickleS3_calls pk fault cs (self, w)) = self
   \<and> PickleS3_call pk fault c (PickleS3_calls pk fault cs (self, w))
       = PickleS3_call pk fault c (\<lparr>bucket = bucket self\<rparr>, snd (PickleS3_calls pk fault cs (self, w)))"
proof -
  obtain self' w' where r: "PickleS3_calls pk fault cs (self, w) = (self', w')"
    by (cases "PickleS3_calls pk fault cs (self, w)")
  with PickleS3_calls_self [of pk fault cs self w] have "self' = self"
    by simp
  moreover have e: "\<lparr>bucket = bucket self\<rparr> = self"
    by (cases self) simp
  ultimately show ?thesis
    unfolding e using r by (simp add: PickleS3_dump_self PickleS3_load_self)
qed

text \<open>
  C8 (as amended). The bare statement of \<open>load\<close> only builds a resource object that is
  dropped: \<open>load\<close> equals its text without that statement, on every world and key, with
  the same result and the same world after it. Either one sends a single request, the
  get of the body, and leaves the content of the store unchanged.
\<close>

theorem load_bare_Object_redundant:
  "PickleS3_load pk fault path (self, w) = PickleS3_load_without_bare_Object pk fault path (self, w)
   \<and> snd (snd (PickleS3_load pk fault path (self, w))) = w\<lparr>requests := requests w @ [GetObject (bucket self) path]\<rparr>
   \<and> objects (snd (snd (PickleS3_load pk fault path (self, w)))) = objects w"
proof -
  have "PickleS3_load pk fault path (self, w) = PickleS3_load_without_bare_Object pk fault path (self, w)"
    by (simp add: PickleS3_load_def PickleS3_load_without_bare_Object_def)
  moreover have "snd (snd (PickleS3_load pk fault path (self, w)))
                  = w\<lparr>requests := requests w @ [GetObject (bucket self) path]\<rparr>"
    by (simp add: PickleS3_load_eq)
  moreover have "objects (snd (snd (PickleS3_load pk fault path (self, w)))) = objects w"
    by (simp add: PickleS3_load_eq)
  ultimately show ?thesis
    by (intro conjI)
qed

text \<open>
  C8 as the spec states it fails: no request for the object's metadata precedes the read
  of the body. The requests of a \<open>load\<close> on a stored object are the one get.
\<close>

theorem load_sends_one_request_counterexample:
  "requests (snd (snd (PickleS3_load pickle2 no_faults ''model.pkl''
       (\<lparr>bucket = ''b''\<rparr>, empty_world\<lparr>objects := [(''b'', ''model.pkl'') \<mapsto> [0x80, 0x02, 0x4E, 0x2E]]\<rparr>))))
     = [GetObject ''b'' ''model.pkl'']"
  by (simp add: PickleS3_load_def Object_get_def s3_Object_def no_faults_def empty_world_def)

section \<open>Construction\<close>

text \<open>
  C2 (as amended). Constructing \<open>PickleS3\<close> with no bucket (\<open>None\<close>) fails at once with an
  assertion error, and constructing it with any bucket that is not \<open>None\<close>, the empty one
  included, succeeds and binds that bucket. Neither sends a request: the world is
  returned as it was.
\<close>

theorem PickleS3_init_only_rejects_None:
  "PickleS3_init None w = (Inl AssertionError, w)
   \<and> PickleS3_init (Some b) w = (Inr \<lparr>bucket = b\<rparr>, w)"
  by simp

text \<open>
  C2 as the spec states it fails: the empty bucket name is not \<open>None\<close>, the assertion
  passes and the instance is built.
\<close>

theorem PickleS3_init_empty_bucket_counterexample:
  "fst (PickleS3_init (Some []) empty_world) = Inr \<lparr>bucket = []\<rparr>"
  by simp

section \<open>The readers\<close>

lemma to_pandas_columns:
  "to_pandas pf cs = Inr df \<Longrightarrow> map fst df = cs"
proof (induction cs arbitrary: df)
  case Nil
  then show ?case by simp
next
  case (Cons c cs)
  then show ?case
    by (auto split: option.splits sum.splits)
qed

lemma to_pandas_returns:
  "set cs \<subseteq> set (dtypes pf) \<Longrightarrow> \<exists>df. to_pandas pf cs = Inr df"
proof (induction cs)
  case Nil
  then show ?case by simp
next
  case (Cons c cs)
  then have "c \<in> fst ` set pf" by (simp add: dtypes_def)
  then obtain v where "map_of pf c = Some v"
    by (metis map_of_eq_None_iff not_Some_eq)
  moreover from Cons obtain df where "to_pandas pf cs = Inr df" by auto
  ultimately show ?case by simp
qed

lemma to_pandas_present:
  assumes "set cs \<subseteq> set (dtypes pf)"
  shows "\<exists>df. to_pandas pf cs = Inr df \<and> map fst df = cs"
  using to_pandas_returns [OF assms] to_pandas_columns by blast

lemma not_missing_columns:
  "filter (\<lambda>c. c \<notin> set (filter (\<lambda>col. col \<notin> set ds) cols)) cols = filter (\<lambda>c. c \<in> set ds) cols"
  by (rule filter_cong) auto

text \<open>
  C9. With \<open>columns=None\<close>, \<open>read_parquet_s3\<close> returns the columns of the file in their
  order except any named \<open>autoFilledFields\<close>, which is left out. With an explicit list of
  columns (all in the file, or with \<open>skip_missing_colums\<close> set) it returns the listed
  columns that the file has, \<open>autoFilledFields\<close> among them when it is listed and present.
\<close>

theorem read_parquet_s3_drops_autoFilledFields_by_default:
  assumes "CHR ''/'' \<notin> set s3_bucket" and "\<not> startswith path ''/''" and "endswith path ''.parquet''"
    and "ParquetFile (os_path_join s3_bucket path) = Inr pf"
  shows "(\<exists>df. read_parquet_s3 ParquetFile s3_bucket path None skip = Inr df
               \<and> map fst df = filter (\<lambda>c. c \<noteq> ''autoFilledFields'') (dtypes pf)
               \<and> ''autoFilledFields'' \<notin> fst ` set df)
       \<and> (set cols \<subseteq> set (dtypes pf) \<or> skip \<longrightarrow>
            (\<exists>df. read_parquet_s3 ParquetFile s3_bucket path (Some cols) skip = Inr df
               \<and> map fst df = filter (\<lambda>c. c \<in> set (dtypes pf)) cols
               \<and> (''autoFilledFields'' \<in> set cols \<and> ''autoFilledFields'' \<in> set (dtypes pf) \<longrightarrow>
                    ''autoFilledFields'' \<in> fst ` set df)))"
proof -
  let ?dflt = "filter (\<lambda>c. c \<noteq> ''autoFilledFields'') (dtypes pf)"
  have "set ?dflt \<subseteq> set (dtypes pf)" by auto
  from to_pandas_present [OF this] obtain df where
    df: "to_pandas pf ?dflt = Inr df" "map fst df = ?dflt" by blast
  from df(2) have "set (map fst df) = set ?dflt" by simp
  then have "''autoFilledFields'' \<notin> fst ` set df" by auto
  with df assms have 1: "\<exists>df. read_parquet_s3 ParquetFile s3_bucket path None skip = Inr df
               \<and> map fst df = ?dflt \<and> ''autoFilledFields'' \<notin> fst ` set df"
    by (simp add: read_parquet_s3_def)
  have 2: "\<exists>df. read_parquet_s3 ParquetFile s3_bucket path (Some cols) skip = Inr df
               \<and> map fst df = filter (\<lambda>c. c \<in> set (dtypes pf)) cols
               \<and> (''autoFilledFields'' \<in> set cols \<and> ''autoFilledFields'' \<in> set (dtypes pf) \<longrightarrow>
                    ''autoFilledFields'' \<in> fst ` set df)"
    if ok: "set cols \<subseteq> set (dtypes pf) \<or> skip"
  proof -
    let ?kept = "filter (\<lambda>c. c \<in> set (dtypes pf)) cols"
    have go: "\<not> (filter (\<lambda>col. col \<notin> set (dtypes pf)) cols \<noteq> [] \<and> \<not> skip)"
      using ok by (auto simp: filter_empty_conv)
    have "set ?kept \<subseteq> set (dtypes pf)" by auto
    from to_pandas_present [OF this] obtain df' where
      df': "to_pandas pf ?kept = Inr df'" "map fst df' = ?kept" by blast
    from df'(2) have "set (map fst df') = set ?kept" by simp
    then have "''autoFilledFields'' \<in> set cols \<and> ''autoFilledFields'' \<in> set (dtypes pf) \<longrightarrow>
                 ''autoFilledFields'' \<in> fst ` set df'"
      by auto
    moreover have "read_parquet_s3 ParquetFile s3_bucket path (Some cols) skip = to_pandas pf ?kept"
      unfolding read_parquet_s3_def Let_def not_missing_columns
      using assms go by auto
    ultimately show ?thesis
      using df' by simp
  qed
  from 1 2 show ?thesis by blast
qed

theorem read_parquet_s3_drops_autoFilledFields_by_default_witness:
  "read_parquet_s3 one_parquet ''data'' ''t.parquet'' None False
     = Inr [(''id'', [1, 2]), (''price'', [7, 9])]
   \<and> read_parquet_s3 one_parquet ''data'' ''t.parquet'' (Some [''autoFilledFields'', ''id'']) False
     = Inr [(''autoFilledFields'', [0, 0]), (''id'', [1, 2])]"
proof -
  have g1: "CHR ''/'' \<notin> set ''data''" by simp
  have g2: "\<not> startswith ''t.parquet'' ''/''" by (simp add: startswith_def)
  have g3: "endswith ''t.parquet'' ''.parquet''" by (simp add: endswith_def)
  have g4: "one_parquet (os_path_join ''data'' ''t.parquet'') = Inr three_columns"
    by (simp add: one_parquet_def os_path_join_def startswith_def endswith_def)
  have sub: "set [''autoFilledFields'', ''id''] \<subseteq> set (dtypes three_columns)"
    by (simp add: dtypes_def three_columns_def)
  from read_parquet_s3_drops_autoFilledFields_by_default
         [where ParquetFile = one_parquet and s3_bucket = "''data''" and path = "''t.parquet''"
            and pf = three_columns and skip = False and cols = "[''autoFilledFields'', ''id'']",
          OF g1 g2 g3 g4] sub
  show ?thesis
    by (simp add: read_parquet_s3_def g1 g2 g3 g4 dtypes_def three_columns_def)
qed

text \<open>
  C10 (as amended). For a \<open>compression\<close> other than \<open>None\<close> and \<open>'gzip'\<close>, \<open>read_csv_s3\<close>
  sends no request to the store. When the bucket name has no \<open>/\<close> and the path does not
  start with \<open>/\<close>, it does not raise: it prints its message and returns \<open>None\<close>. Otherwise
  the assertion at its head fails first and it raises \<open>AssertionError\<close>.
\<close>

theorem read_csv_s3_unrecognized_compression:
  assumes "compression \<noteq> None" and "compression \<noteq> Some ''gzip''"
  shows "(CHR ''/'' \<notin> set s3_bucket \<and> \<not> startswith path ''/'' \<longrightarrow>
            read_csv_s3 fault pd_read_csv s3_bucket path sep compression kwargs w =
              (Inr None,
               print2 (''Error in read_csv_s3: compression not recognized/implemented.'' @ [CHR 0x0A]
                         @ ''CSV ompression: '') (py_str compression) w))
       \<and> (CHR ''/'' \<in> set s3_bucket \<or> startswith path ''/'' \<longrightarrow>
            read_csv_s3 fault pd_read_csv s3_bucket path sep compression kwargs w = (Inl AssertionError, w))
       \<and> requests (snd (read_csv_s3 fault pd_read_csv s3_bucket path sep compression kwargs w)) = requests w
       \<and> objects (snd (read_csv_s3 fault pd_read_csv s3_bucket path sep compression kwargs w)) = objects w"
  using assms by (cases compression) (simp_all add: read_csv_s3_def print2_def)

theorem read_csv_s3_unrecognized_compression_witness:
  "read_csv_s3 no_faults raw_csv ''bucket'' ''prices.csv.bz2'' '','' (Some ''bz2'') () empty_world
     = (Inr None,
        empty_world\<lparr>stdout :=
          [''Error in read_csv_s3: compression not recognized/implemented.'' @ [CHR 0x0A]
             @ ''CSV ompression:  bz2'' @ [CHR 0x0A]]\<rparr>)"
proof -
  have c: "Some ''bz2'' \<noteq> (None :: string option)" "Some ''bz2'' \<noteq> Some ''gzip''"
    by simp_all
  have g: "CHR ''/'' \<notin> set ''bucket'' \<and> \<not> startswith ''prices.csv.bz2'' ''/''"
    by (simp add: startswith_def)
  from read_csv_s3_unrecognized_compression
         [OF c, of "''bucket''" "''prices.csv.bz2''" no_faults raw_csv "'',''" "()" empty_world] g
  show ?thesis
    by (simp add: print2_def empty_world_def)
qed

text \<open>
  C10 as the spec states it fails on a bucket name with a \<open>/\<close>: the first assertion
  raises before the compression is looked at.
\<close>

theorem read_csv_s3_bad_bucket_counterexample:
  "fst (read_csv_s3 no_faults raw_csv ''my/bucket'' ''prices.csv'' '','' (Some ''bz2'') () empty_world)
     = Inl AssertionError"
  by (simp add: read_csv_s3_def)

end
